theory Spec2Isabelle
  imports Complex_Main
begin

section \<open>Python values, objects and the store\<close>

text \<open>
  The module \<^verbatim>\<open>sandman2/model.py\<close> defines one class, \<^verbatim>\<open>Model\<close>, whose seven methods
  read table metadata and read or write attributes of an instance. Instances are mutable
  and are passed by reference, so they live in a store (a map from references to
  instances); every operation takes the store and returns its outcome together with the
  store it leaves behind. A raised exception is the \<open>Inl\<close> of a sum.
\<close>

type_synonym ref = nat

text \<open>
  A finite \<^verbatim>\<open>decimal.Decimal\<close>: coefficient and exponent, standing for \<open>c * 10 ^ e\<close>.
  On these \<^verbatim>\<open>float\<close> always returns.
\<close>

datatype decimal = Decimal int int

text \<open>
  The values an attribute can hold. The type \<open>'f\<close> is the interpreter's \<^verbatim>\<open>float\<close>;
  a related object is a reference, a collection of related objects a list of references.
\<close>

datatype 'f val =
    VNone
  | VBool bool
  | VInt int
  | VStr string
  | VDecimal decimal
  | VFloat 'f
  | VObj ref
  | VList "ref list"

text \<open>
  The exceptions that the operations can raise. \<open>NoSuchObject\<close> is not a Python
  exception: it is the outcome of a call on a reference that the store does not hold,
  which no Python program can make.
\<close>

datatype error = AttributeError | IndexError | KeyError | TypeError | NoSuchObject

text \<open>
  The metadata that the object-relational mapper supplies: a column with its
  \<^verbatim>\<open>key\<close>, \<^verbatim>\<open>name\<close>, \<^verbatim>\<open>nullable\<close> and \<^verbatim>\<open>primary_key\<close> attributes; a table with its
  \<^verbatim>\<open>columns\<close>, in declaration order, and the columns of its \<^verbatim>\<open>primary_key\<close>
  constraint, in the constraint's order. The column collection holds each column under
  its key, so \<^verbatim>\<open>columns.keys()\<close> are the keys, in declaration order. A column's key is
  its name unless the column was declared with a key of its own; the mapped attribute of
  the column carries the key.
\<close>

record column =
  column_key :: string
  column_name :: string
  column_nullable :: bool
  column_primary_key :: bool

record table =
  table_columns :: "column list"
  table_primary_key :: "column list"

text \<open>
  A resource class: \<^verbatim>\<open>Model\<close> mixed with one mapped table. \<open>url\<close> is \<^verbatim>\<open>__url__\<close>
  (\<^verbatim>\<open>None\<close> until a generator sets it), \<open>table\<close> is \<^verbatim>\<open>__table__\<close> and \<open>relationships\<close>
  are the keys of \<^verbatim>\<open>inspect(cls).relationships\<close> in iteration order. The other
  fields are what the class and its descriptors decide and the module only calls:
  \<^item> \<open>refuses name v\<close>: the class refuses to have \<open>v\<close> assigned to the attribute
    \<open>name\<close>, and \<^verbatim>\<open>setattr\<close> raises \<^verbatim>\<open>AttributeError\<close>. A property without a setter
    refuses every value; the attribute of a two-directional relationship refuses a value
    that is not a mapped object.
  \<^item> \<open>assigned self name v s\<close>: the attributes of the objects after what an accepted
    assignment of \<open>v\<close> to \<open>name\<close> on the instance \<open>self\<close> does to the other objects,
    given their attributes \<open>s\<close> before it (a two-directional relationship puts the
    instance into the attribute of the object assigned, and takes it out of that of the
    object replaced); the identity for a plain attribute.
  \<^item> \<open>truth\<close>: the truth value of an instance with the given attributes, which
    \<^verbatim>\<open>__bool__\<close> or \<^verbatim>\<open>__len__\<close> of the class compute; a class that defines neither has
    the constant \<open>True\<close>.
\<close>

type_synonym 'f attr_store = "ref \<rightharpoonup> (string \<rightharpoonup> 'f val)"

record 'f model_class =
  url :: "string option"
  table :: table
  relationships :: "string list"
  refuses :: "string \<Rightarrow> 'f val \<Rightarrow> bool"
  assigned :: "ref \<Rightarrow> string \<Rightarrow> 'f val \<Rightarrow> 'f attr_store \<Rightarrow> 'f attr_store"
  truth :: "(string \<rightharpoonup> 'f val) \<Rightarrow> bool"

record 'f model =
  cls :: "'f model_class"
  attrs :: "string \<rightharpoonup> 'f val"

type_synonym 'f heap = "ref \<rightharpoonup> 'f model"

text \<open>
  The builtins of the interpreter that the module calls and does not define:
  \<^verbatim>\<open>float\<close> on a \<^verbatim>\<open>Decimal\<close>, \<^verbatim>\<open>str\<close> on the values whose text depends on the interpreter
  (decimals, floats, objects, lists), and the truth value of a float.
  Every operation below takes them as a parameter.
\<close>

record 'f python =
  py_float :: "decimal \<Rightarrow> 'f"
  py_str :: "'f val \<Rightarrow> string"
  py_bool :: "'f \<Rightarrow> bool"

section \<open>Builtins with a fixed meaning\<close>

text \<open>\<^verbatim>\<open>str\<close> of an integer: its decimal digits, with a minus sign when negative.\<close>

fun str_nat :: "nat \<Rightarrow> string" where
  "str_nat n =
     (if n < 10 then [''0123456789'' ! n]
      else str_nat (n div 10) @ [''0123456789'' ! (n mod 10)])"

declare str_nat.simps [simp del]

definition str_int :: "int \<Rightarrow> string" where
  "str_int i = (if i < 0 then CHR ''-'' # str_nat (nat (- i)) else str_nat (nat i))"

definition str :: "'f python \<Rightarrow> 'f val \<Rightarrow> string" where
  "str py v =
     (case v of
        VNone \<Rightarrow> ''None''
      | VBool b \<Rightarrow> (if b then ''True'' else ''False'')
      | VInt i \<Rightarrow> str_int i
      | VStr s \<Rightarrow> s
      | _ \<Rightarrow> py_str py v)"

text \<open>
  The truth value that \<^verbatim>\<open>if instance:\<close> tests. That of an object is what its class
  computes from the object as the store holds it (a reference that the store does not
  hold counts as true, and the call on it fails).
\<close>

definition truthy :: "'f python \<Rightarrow> 'f heap \<Rightarrow> 'f val \<Rightarrow> bool" where
  "truthy py h v =
     (case v of
        VNone \<Rightarrow> False
      | VBool b \<Rightarrow> b
      | VInt i \<Rightarrow> i \<noteq> 0
      | VStr s \<Rightarrow> s \<noteq> []
      | VDecimal d \<Rightarrow> (case d of Decimal c e \<Rightarrow> c \<noteq> 0)
      | VFloat f \<Rightarrow> py_bool py f
      | VObj r \<Rightarrow> (case h r of None \<Rightarrow> True | Some related \<Rightarrow> truth (cls related) (attrs related))
      | VList rs \<Rightarrow> rs \<noteq> [])"

text \<open>\<^verbatim>\<open>sub in s\<close> on strings: \<open>sub\<close> occurs in \<open>s\<close> as a contiguous substring.\<close>

fun startswith :: "string \<Rightarrow> string \<Rightarrow> bool" where
  "startswith s [] = True"
| "startswith [] (p # ps) = False"
| "startswith (c # s) (p # ps) = (c = p \<and> startswith s ps)"

fun str_contains :: "string \<Rightarrow> string \<Rightarrow> bool" where
  "str_contains sub [] = (sub = [])"
| "str_contains sub (c # s) = (startswith (c # s) sub \<or> str_contains sub s)"

text \<open>
  \<^verbatim>\<open>getattr(obj, name)\<close> raises \<^verbatim>\<open>AttributeError\<close> when the attribute is missing;
  \<^verbatim>\<open>getattr(obj, name, default)\<close> returns the default instead.
\<close>

definition getattr :: "ref \<Rightarrow> string \<Rightarrow> 'f heap \<Rightarrow> (error + 'f val) \<times> 'f heap" where
  "getattr self name h =
     (case h self of
        None \<Rightarrow> (Inl NoSuchObject, h)
      | Some obj \<Rightarrow>
          (case attrs obj name of
             None \<Rightarrow> (Inl AttributeError, h)
           | Some v \<Rightarrow> (Inr v, h)))"

definition getattr_default :: "'f model \<Rightarrow> string \<Rightarrow> 'f val \<Rightarrow> 'f val" where
  "getattr_default obj name dflt =
     (case attrs obj name of None \<Rightarrow> dflt | Some v \<Rightarrow> v)"

text \<open>
  \<^verbatim>\<open>setattr(obj, name, value)\<close> stores the value under the name in the instance, unless
  the class refuses the assignment; the other objects of the store get the attributes
  that the side effects of the assignment give them.
\<close>

definition attrs_of :: "'f heap \<Rightarrow> 'f attr_store" where
  "attrs_of h = (\<lambda>r. map_option attrs (h r))"

definition with_attrs :: "'f heap \<Rightarrow> 'f attr_store \<Rightarrow> 'f heap" where
  "with_attrs h s =
     (\<lambda>r. case h r of
            None \<Rightarrow> None
          | Some other \<Rightarrow> Some (case s r of None \<Rightarrow> other | Some a \<Rightarrow> other\<lparr>attrs := a\<rparr>))"

definition setattr :: "ref \<Rightarrow> string \<Rightarrow> 'f val \<Rightarrow> 'f heap \<Rightarrow> (error + unit) \<times> 'f heap" where
  "setattr self name v h =
     (case h self of
        None \<Rightarrow> (Inl NoSuchObject, h)
      | Some obj \<Rightarrow>
          if refuses (cls obj) name v then (Inl AttributeError, h)
          else (Inr (),
                (with_attrs h (assigned (cls obj) self name v (attrs_of h)))
                  (self \<mapsto> obj\<lparr>attrs := (attrs obj)(name \<mapsto> v)\<rparr>)))"

section \<open>The methods of \<^verbatim>\<open>Model\<close>\<close>

subsection \<open>\<^verbatim>\<open>required\<close> and \<^verbatim>\<open>optional\<close>\<close>

text \<open>
  Both are class methods: they start from an empty list \<^verbatim>\<open>columns\<close>, walk
  \<^verbatim>\<open>cls.__table__.columns\<close> and append the name of each column that passes the test.
\<close>

fun required_loop :: "column list \<Rightarrow> string list \<Rightarrow> string list" where
  "required_loop [] columns = columns"
| "required_loop (column # rest) columns =
     (if \<not> column_nullable column \<and> \<not> column_primary_key column
      then required_loop rest (columns @ [column_name column])
      else required_loop rest columns)"

definition required :: "'f model_class \<Rightarrow> 'f heap \<Rightarrow> string list \<times> 'f heap" where
  "required c h = (required_loop (table_columns (table c)) [], h)"

fun optional_loop :: "column list \<Rightarrow> string list \<Rightarrow> string list" where
  "optional_loop [] columns = columns"
| "optional_loop (column # rest) columns =
     (if column_nullable column
      then optional_loop rest (columns @ [column_name column])
      else optional_loop rest columns)"

definition optional :: "'f model_class \<Rightarrow> 'f heap \<Rightarrow> string list \<times> 'f heap" where
  "optional c h = (optional_loop (table_columns (table c)) [], h)"

subsection \<open>\<^verbatim>\<open>primary_key\<close>\<close>

text \<open>
  \<^verbatim>\<open>list(self.__table__.primary_key.columns)[0].name\<close>: indexing the empty list raises
  \<^verbatim>\<open>IndexError\<close>.
\<close>

definition primary_key :: "ref \<Rightarrow> 'f heap \<Rightarrow> (error + string) \<times> 'f heap" where
  "primary_key self h =
     (case h self of
        None \<Rightarrow> (Inl NoSuchObject, h)
      | Some obj \<Rightarrow>
          (case table_primary_key (table (cls obj)) of
             [] \<Rightarrow> (Inl IndexError, h)
           | c # _ \<Rightarrow> (Inr (column_name c), h)))"

subsection \<open>\<^verbatim>\<open>to_dict\<close>\<close>

text \<open>
  The loop over \<^verbatim>\<open>self.__table__.columns.keys()\<close>: each key is stored with the value of
  \<^verbatim>\<open>getattr(self, column, None)\<close>, and stored again as a float when that value is a
  \<^verbatim>\<open>Decimal\<close>.
\<close>

fun to_dict_loop ::
  "'f python \<Rightarrow> 'f model \<Rightarrow> string list \<Rightarrow> (string \<rightharpoonup> 'f val) \<Rightarrow> (string \<rightharpoonup> 'f val)" where
  "to_dict_loop py obj [] result_dict = result_dict"
| "to_dict_loop py obj (column # rest) result_dict =
     (let v = getattr_default obj column VNone;
          result_dict' = result_dict(column \<mapsto> v)
      in to_dict_loop py obj rest
           (case v of
              VDecimal d \<Rightarrow> result_dict'(column \<mapsto> VFloat (py_float py d))
            | _ \<Rightarrow> result_dict'))"

definition to_dict ::
  "'f python \<Rightarrow> ref \<Rightarrow> 'f heap \<Rightarrow> (error + (string \<rightharpoonup> 'f val)) \<times> 'f heap" where
  "to_dict py self h =
     (case h self of
        None \<Rightarrow> (Inl NoSuchObject, h)
      | Some obj \<Rightarrow>
          (Inr (to_dict_loop py obj
                  (map column_key (table_columns (table (cls obj)))) Map.empty), h))"

subsection \<open>\<^verbatim>\<open>resource_uri\<close>\<close>

text \<open>
  \<^verbatim>\<open>self.__url__ + '/' + str(getattr(self, self.primary_key()))\<close>. The left sum is
  evaluated first, and \<^verbatim>\<open>None + '/'\<close> raises \<^verbatim>\<open>TypeError\<close>.
\<close>

definition resource_uri :: "'f python \<Rightarrow> ref \<Rightarrow> 'f heap \<Rightarrow> (error + string) \<times> 'f heap" where
  "resource_uri py self h =
     (case h self of
        None \<Rightarrow> (Inl NoSuchObject, h)
      | Some obj \<Rightarrow>
          (case url (cls obj) of
             None \<Rightarrow> (Inl TypeError, h)
           | Some u \<Rightarrow>
               (case primary_key self h of
                  (Inl e, h1) \<Rightarrow> (Inl e, h1)
                | (Inr pk, h1) \<Rightarrow>
                    (case getattr self pk h1 of
                       (Inl e, h2) \<Rightarrow> (Inl e, h2)
                     | (Inr v, h2) \<Rightarrow> (Inr (u @ ''/'' @ str py v), h2)))))"

subsection \<open>\<^verbatim>\<open>links\<close>\<close>

text \<open>
  \<^verbatim>\<open>instance.resource_uri()\<close> on the value of a relationship attribute: only an object
  has the method.
\<close>

definition call_resource_uri ::
  "'f python \<Rightarrow> 'f val \<Rightarrow> 'f heap \<Rightarrow> (error + string) \<times> 'f heap" where
  "call_resource_uri py v h =
     (case v of VObj r \<Rightarrow> resource_uri py r h | _ \<Rightarrow> (Inl AttributeError, h))"

fun links_loop ::
  "'f python \<Rightarrow> ref \<Rightarrow> string list \<Rightarrow> (string \<rightharpoonup> string) \<Rightarrow> 'f heap
     \<Rightarrow> (error + (string \<rightharpoonup> string)) \<times> 'f heap" where
  "links_loop py self [] link_dict h = (Inr link_dict, h)"
| "links_loop py self (key # rest) link_dict h =
     (if \<not> str_contains ''collection'' key then
        (case getattr self key h of
           (Inl e, h1) \<Rightarrow> (Inl e, h1)
         | (Inr inst, h1) \<Rightarrow>
             if truthy py h1 inst then
               (case call_resource_uri py inst h1 of
                  (Inl e, h2) \<Rightarrow> (Inl e, h2)
                | (Inr u, h2) \<Rightarrow> links_loop py self rest (link_dict(key \<mapsto> u)) h2)
             else links_loop py self rest link_dict h1)
      else links_loop py self rest link_dict h)"

definition links ::
  "'f python \<Rightarrow> ref \<Rightarrow> 'f heap \<Rightarrow> (error + (string \<rightharpoonup> string)) \<times> 'f heap" where
  "links py self h =
     (case resource_uri py self h of
        (Inl e, h1) \<Rightarrow> (Inl e, h1)
      | (Inr u, h1) \<Rightarrow>
          (case h1 self of
             None \<Rightarrow> (Inl NoSuchObject, h1)
           | Some obj \<Rightarrow>
               links_loop py self (relationships (cls obj)) [''self'' \<mapsto> u] h1))"

subsection \<open>\<^verbatim>\<open>update\<close>\<close>

text \<open>
  The dictionary \<^verbatim>\<open>attributes\<close> is a list of items in iteration order. The loop walks
  its keys, looks each one up in the dictionary and assigns the value; the first
  assignment that raises ends the call, with the store as the earlier assignments left
  it. A call that completes returns \<^verbatim>\<open>self\<close>, the reference it was given.
\<close>

fun update_loop ::
  "ref \<Rightarrow> (string \<times> 'f val) list \<Rightarrow> string list \<Rightarrow> 'f heap \<Rightarrow> (error + unit) \<times> 'f heap" where
  "update_loop self attributes [] h = (Inr (), h)"
| "update_loop self attributes (attribute # rest) h =
     (case map_of attributes attribute of
        None \<Rightarrow> (Inl KeyError, h)
      | Some v \<Rightarrow>
          (case setattr self attribute v h of
             (Inl e, h1) \<Rightarrow> (Inl e, h1)
           | (Inr _, h1) \<Rightarrow> update_loop self attributes rest h1))"

definition update ::
  "ref \<Rightarrow> (string \<times> 'f val) list \<Rightarrow> 'f heap \<Rightarrow> (error + ref) \<times> 'f heap" where
  "update self attributes h =
     (case update_loop self attributes (map fst attributes) h of
        (Inl e, h1) \<Rightarrow> (Inl e, h1)
      | (Inr _, h1) \<Rightarrow> (Inr self, h1))"

section \<open>Notions used to state the properties\<close>

text \<open>
  A mapped table as the mapper builds it: no two columns share a name, and the columns of
  the primary-key constraint are exactly the columns of the table that carry the
  \<^verbatim>\<open>primary_key\<close> flag, each once.
\<close>

definition table_ok :: "table \<Rightarrow> bool" where
  "table_ok t \<longleftrightarrow>
     distinct (map column_name (table_columns t)) \<and>
     distinct (table_primary_key t) \<and>
     set (table_primary_key t) = set (filter column_primary_key (table_columns t))"

text \<open>The one normalisation of \<^verbatim>\<open>to_dict\<close>: a decimal becomes a float, any other value stays.\<close>

definition float_of_decimal :: "'f python \<Rightarrow> 'f val \<Rightarrow> 'f val" where
  "float_of_decimal py v = (case v of VDecimal d \<Rightarrow> VFloat (py_float py d) | _ \<Rightarrow> v)"

text \<open>
  The URI of the object that a relationship attribute holds, when the attribute holds an
  object and \<^verbatim>\<open>resource_uri\<close> returns on it.
\<close>

definition related_uri :: "'f python \<Rightarrow> 'f heap \<Rightarrow> 'f val \<Rightarrow> string option" where
  "related_uri py h v =
     (case v of
        VObj r \<Rightarrow> (case fst (resource_uri py r h) of Inl e \<Rightarrow> None | Inr u \<Rightarrow> Some u)
      | _ \<Rightarrow> None)"

text \<open>The truth value of an attribute; a missing attribute has none.\<close>

definition truthy_attr :: "'f python \<Rightarrow> 'f heap \<Rightarrow> 'f val option \<Rightarrow> bool" where
  "truthy_attr py h a = (case a of None \<Rightarrow> False | Some v \<Rightarrow> truthy py h v)"

text \<open>
  A relationship attribute on which the loop of \<^verbatim>\<open>links\<close> does not raise: it is
  present, and its value is false (\<^verbatim>\<open>None\<close>, an empty collection, an object that its
  class makes false) or is a resource object on which \<^verbatim>\<open>resource_uri\<close> returns.
\<close>

definition linkable :: "'f python \<Rightarrow> 'f heap \<Rightarrow> 'f val option \<Rightarrow> bool" where
  "linkable py h a =
     (case a of
        None \<Rightarrow> False
      | Some v \<Rightarrow> (if truthy py h v then related_uri py h v \<noteq> None else True))"

text \<open>The entries that the loop of \<^verbatim>\<open>links\<close> adds for the relationship keys \<open>ks\<close>.\<close>

definition link_entries ::
  "'f python \<Rightarrow> 'f heap \<Rightarrow> 'f model \<Rightarrow> string list \<Rightarrow> (string \<rightharpoonup> string)" where
  "link_entries py h obj ks =
     (\<lambda>k. if k \<in> set ks \<and> \<not> str_contains ''collection'' k
          then (case attrs obj k of
                  None \<Rightarrow> None
                | Some v \<Rightarrow> if truthy py h v then related_uri py h v else None)
          else None)"

section \<open>Example data\<close>

text \<open>
  An interpreter whose floats are exact rationals, to run the operations on concrete
  data.
\<close>

definition exact_python :: "rat python" where
  "exact_python =
     \<lparr>py_float = (\<lambda>d. case d of Decimal c e \<Rightarrow>
                     if 0 \<le> e then of_int c * 10 ^ nat e else of_int c / 10 ^ nat (- e)),
      py_str = (\<lambda>v. ''<value>''),
      py_bool = (\<lambda>f. f \<noteq> 0)\<rparr>"

definition id_column :: column where
  "id_column =
     \<lparr>column_key = ''id'', column_name = ''id'', column_nullable = False,
      column_primary_key = True\<rparr>"

definition name_column :: column where
  "name_column =
     \<lparr>column_key = ''name'', column_name = ''name'', column_nullable = False,
      column_primary_key = False\<rparr>"

definition price_column :: column where
  "price_column =
     \<lparr>column_key = ''price'', column_name = ''price'', column_nullable = True,
      column_primary_key = False\<rparr>"

definition owner_id_column :: column where
  "owner_id_column =
     \<lparr>column_key = ''owner_id'', column_name = ''owner_id'', column_nullable = True,
      column_primary_key = False\<rparr>"

definition widgets :: table where
  "widgets =
     \<lparr>table_columns = [id_column, name_column, price_column, owner_id_column],
      table_primary_key = [id_column]\<rparr>"

definition owners :: table where
  "owners = \<lparr>table_columns = [id_column, name_column], table_primary_key = [id_column]\<rparr>"

text \<open>
  A class of widgets, each with a singular relationship \<^verbatim>\<open>owner\<close> and a collection
  \<^verbatim>\<open>orders_collection\<close>. The class makes \<^verbatim>\<open>label\<close> a property without a setter. Its
  \<^verbatim>\<open>owner\<close> is two-directional, with \<^verbatim>\<open>widget_collection\<close> of the owner as its other
  side: it takes \<^verbatim>\<open>None\<close> or an object and refuses anything else, and assigning an
  owner takes the widget out of the collection of the owner it had and puts it into the
  collection of the new one.
\<close>

definition members :: "'f val option \<Rightarrow> ref list" where
  "members c = (case c of Some (VList rs) \<Rightarrow> rs | _ \<Rightarrow> [])"

definition leave :: "ref \<Rightarrow> 'f val option \<Rightarrow> 'f attr_store \<Rightarrow> 'f attr_store" where
  "leave self old s =
     (case old of
        Some (VObj r) \<Rightarrow>
          (case s r of
             None \<Rightarrow> s
           | Some a \<Rightarrow>
               s(r \<mapsto> a(''widget_collection'' \<mapsto>
                            VList (removeAll self (members (a ''widget_collection''))))))
      | _ \<Rightarrow> s)"

definition enter :: "ref \<Rightarrow> 'f val \<Rightarrow> 'f attr_store \<Rightarrow> 'f attr_store" where
  "enter self v s =
     (case v of
        VObj r \<Rightarrow>
          (case s r of
             None \<Rightarrow> s
           | Some a \<Rightarrow>
               s(r \<mapsto> a(''widget_collection'' \<mapsto>
                            VList (members (a ''widget_collection'') @ [self]))))
      | _ \<Rightarrow> s)"

definition owner_assigned :: "ref \<Rightarrow> string \<Rightarrow> 'f val \<Rightarrow> 'f attr_store \<Rightarrow> 'f attr_store" where
  "owner_assigned self name v s =
     (if name = ''owner''
      then enter self v (leave self (case s self of None \<Rightarrow> None | Some a \<Rightarrow> a ''owner'') s)
      else s)"

definition Widget :: "rat model_class" where
  "Widget =
     \<lparr>url = Some ''/widgets'', table = widgets,
      relationships = [''owner'', ''orders_collection''],
      refuses = (\<lambda>name v. name = ''label'' \<or>
                   (name = ''owner'' \<and> (case v of VNone \<Rightarrow> False | VObj r \<Rightarrow> False | _ \<Rightarrow> True))),
      assigned = owner_assigned, truth = (\<lambda>a. True)\<rparr>"

definition Owner :: "rat model_class" where
  "Owner =
     \<lparr>url = Some ''/owners'', table = owners,
      relationships = [''widget_collection''], refuses = (\<lambda>name v. False),
      assigned = (\<lambda>self name v s. s), truth = (\<lambda>a. True)\<rparr>"

definition widget42 :: "rat model" where
  "widget42 =
     \<lparr>cls = Widget,
      attrs = [''id'' \<mapsto> VInt 42, ''name'' \<mapsto> VStr ''bolt'',
               ''price'' \<mapsto> VDecimal (Decimal 314 (- 2)), ''owner'' \<mapsto> VObj 2,
               ''orders_collection'' \<mapsto> VList []]\<rparr>"

definition owner7 :: "rat model" where
  "owner7 =
     \<lparr>cls = Owner,
      attrs = [''id'' \<mapsto> VInt 7, ''name'' \<mapsto> VStr ''ann'',
               ''widget_collection'' \<mapsto> VList [1]]\<rparr>"

definition owner8 :: "rat model" where
  "owner8 =
     \<lparr>cls = Owner,
      attrs = [''id'' \<mapsto> VInt 8, ''name'' \<mapsto> VStr ''bob'', ''widget_collection'' \<mapsto> VList []]\<rparr>"

definition store :: "rat heap" where
  "store = [1 \<mapsto> widget42, 2 \<mapsto> owner7, 3 \<mapsto> owner8]"

text \<open>A table with a composite primary key, and a row of it.\<close>

definition order_id_column :: column where
  "order_id_column =
     \<lparr>column_key = ''order_id'', column_name = ''order_id'', column_nullable = False,
      column_primary_key = True\<rparr>"

definition item_id_column :: column where
  "item_id_column =
     \<lparr>column_key = ''item_id'', column_name = ''item_id'', column_nullable = False,
      column_primary_key = True\<rparr>"

definition quantity_column :: column where
  "quantity_column =
     \<lparr>column_key = ''quantity'', column_name = ''quantity'', column_nullable = True,
      column_primary_key = False\<rparr>"

definition order_items :: table where
  "order_items =
     \<lparr>table_columns = [order_id_column, item_id_column, quantity_column],
      table_primary_key = [order_id_column, item_id_column]\<rparr>"

definition OrderItem :: "rat model_class" where
  "OrderItem =
     \<lparr>url = Some ''/order_items'', table = order_items, relationships = [],
      refuses = (\<lambda>name v. False),
      assigned = (\<lambda>self name v s. s), truth = (\<lambda>a. True)\<rparr>"

definition order_item :: "rat model" where
  "order_item =
     \<lparr>cls = OrderItem,
      attrs = [''order_id'' \<mapsto> VInt 1, ''item_id'' \<mapsto> VInt 2, ''quantity'' \<mapsto> VNone]\<rparr>"

definition order_store :: "rat heap" where
  "order_store = [1 \<mapsto> order_item]"

text \<open>
  A table whose columns were declared with keys of their own: the columns named
  \<^verbatim>\<open>id\<close>, \<^verbatim>\<open>name\<close> and \<^verbatim>\<open>price\<close> are held, and mapped, as \<^verbatim>\<open>ident\<close>, \<^verbatim>\<open>title\<close> and
  \<^verbatim>\<open>cost\<close>. One row of it.
\<close>

definition ident_column :: column where
  "ident_column =
     \<lparr>column_key = ''ident'', column_name = ''id'', column_nullable = False,
      column_primary_key = True\<rparr>"

definition title_column :: column where
  "title_column =
     \<lparr>column_key = ''title'', column_name = ''name'', column_nullable = False,
      column_primary_key = False\<rparr>"

definition cost_column :: column where
  "cost_column =
     \<lparr>column_key = ''cost'', column_name = ''price'', column_nullable = True,
      column_primary_key = False\<rparr>"

definition gadgets :: table where
  "gadgets =
     \<lparr>table_columns = [ident_column, title_column, cost_column],
      table_primary_key = [ident_column]\<rparr>"

definition Gadget :: "rat model_class" where
  "Gadget =
     \<lparr>url = Some ''/gadgets'', table = gadgets, relationships = [],
      refuses = (\<lambda>name v. False),
      assigned = (\<lambda>self name v s. s), truth = (\<lambda>a. True)\<rparr>"

definition gadget1 :: "rat model" where
  "gadget1 =
     \<lparr>cls = Gadget,
      attrs = [''ident'' \<mapsto> VInt 1, ''title'' \<mapsto> VStr ''cog'',
               ''cost'' \<mapsto> VDecimal (Decimal 314 (- 2))]\<rparr>"

definition gadget_store :: "rat heap" where
  "gadget_store = [1 \<mapsto> gadget1]"

text \<open>
  A class whose instances can be false: a basket defines \<^verbatim>\<open>__len__\<close> as the number in
  its attribute \<^verbatim>\<open>size\<close>, so an empty basket is false. A shopper has a singular
  relationship \<^verbatim>\<open>basket\<close>; shopper 1 holds the empty basket 2.
\<close>

definition Basket :: "rat model_class" where
  "Basket =
     \<lparr>url = Some ''/baskets'', table = owners, relationships = [],
      refuses = (\<lambda>name v. False),
      assigned = (\<lambda>self name v s. s), truth = (\<lambda>a. a ''size'' \<noteq> Some (VInt 0))\<rparr>"

definition Shopper :: "rat model_class" where
  "Shopper =
     \<lparr>url = Some ''/shoppers'', table = owners, relationships = [''basket''],
      refuses = (\<lambda>name v. False),
      assigned = (\<lambda>self name v s. s), truth = (\<lambda>a. True)\<rparr>"

definition shopper1 :: "rat model" where
  "shopper1 =
     \<lparr>cls = Shopper,
      attrs = [''id'' \<mapsto> VInt 1, ''name'' \<mapsto> VStr ''sam'', ''basket'' \<mapsto> VObj 2]\<rparr>"

definition basket5 :: "rat model" where
  "basket5 =
     \<lparr>cls = Basket,
      attrs = [''id'' \<mapsto> VInt 5, ''name'' \<mapsto> VStr ''b'', ''size'' \<mapsto> VInt 0]\<rparr>"

definition shop_store :: "rat heap" where
  "shop_store = [1 \<mapsto> shopper1, 2 \<mapsto> basket5]"

text \<open>
  A class whose singular relationship is keyed \<^verbatim>\<open>self\<close>: the profiles of a table
  \<^verbatim>\<open>self\<close>, one profile and the row it refers to.
\<close>

definition Self :: "rat model_class" where
  "Self =
     \<lparr>url = Some ''/self'', table = owners, relationships = [],
      refuses = (\<lambda>name v. False),
      assigned = (\<lambda>self name v s. s), truth = (\<lambda>a. True)\<rparr>"

definition Profile :: "rat model_class" where
  "Profile =
     \<lparr>url = Some ''/profiles'', table = owners, relationships = [''self''],
      refuses = (\<lambda>name v. False),
      assigned = (\<lambda>self name v s. s), truth = (\<lambda>a. True)\<rparr>"

definition profile1 :: "rat model" where
  "profile1 =
     \<lparr>cls = Profile,
      attrs = [''id'' \<mapsto> VInt 1, ''name'' \<mapsto> VStr ''p'', ''self'' \<mapsto> VObj 2]\<rparr>"

definition self9 :: "rat model" where
  "self9 = \<lparr>cls = Self, attrs = [''id'' \<mapsto> VInt 9, ''name'' \<mapsto> VStr ''s'']\<rparr>"

definition profile_store :: "rat heap" where
  "profile_store = [1 \<mapsto> profile1, 2 \<mapsto> self9]"

section \<open>Facts about the builtins and the loops\<close>

lemmas example_defs =
  exact_python_def id_column_def name_column_def price_column_def owner_id_column_def
  widgets_def owners_def Widget_def Owner_def widget42_def owner7_def owner8_def store_def
  order_id_column_def item_id_column_def quantity_column_def order_items_def
  OrderItem_def order_item_def order_store_def
  ident_column_def title_column_def cost_column_def gadgets_def Gadget_def gadget1_def
  gadget_store_def Basket_def Shopper_def shopper1_def basket5_def shop_store_def
  Self_def Profile_def profile1_def self9_def profile_store_def
  members_def leave_def enter_def owner_assigned_def attrs_of_def with_attrs_def

lemma startswith_iff: "startswith s p \<longleftrightarrow> (\<exists>t. s = p @ t)"
  by (induction s p rule: startswith.induct) auto

text \<open>\<open>str_contains\<close> is the substring test.\<close>

lemma str_contains_iff: "str_contains sub s \<longleftrightarrow> (\<exists>pre post. s = pre @ sub @ post)"
proof (induction s)
  case Nil
  then show ?case by auto
next
  case (Cons c s)
  show ?case
  proof
    assume "str_contains sub (c # s)"
    then consider "startswith (c # s) sub" | "str_contains sub s" by auto
    then show "\<exists>pre post. c # s = pre @ sub @ post"
    proof cases
      case 1
      then obtain t where "c # s = sub @ t" by (auto simp: startswith_iff)
      then have "c # s = [] @ sub @ t" by simp
      then show ?thesis by blast
    next
      case 2
      with Cons.IH obtain pre post where "s = pre @ sub @ post" by blast
      then have "c # s = (c # pre) @ sub @ post" by simp
      then show ?thesis by blast
    qed
  next
    assume "\<exists>pre post. c # s = pre @ sub @ post"
    then obtain pre post where eq: "c # s = pre @ sub @ post" by blast
    show "str_contains sub (c # s)"
    proof (cases pre)
      case Nil
      with eq have "startswith (c # s) sub" by (auto simp: startswith_iff)
      then show ?thesis by simp
    next
      case (Cons a pre')
      with eq have "s = pre' @ sub @ post" by simp
      with Cons.IH have "str_contains sub s" by blast
      then show ?thesis by simp
    qed
  qed
qed


lemma required_loop_eq:
  "required_loop cs acc =
     acc @ map column_name (filter (\<lambda>c. \<not> column_nullable c \<and> \<not> column_primary_key c) cs)"
  by (induction cs arbitrary: acc) simp_all

lemma optional_loop_eq:
  "optional_loop cs acc = acc @ map column_name (filter column_nullable cs)"
  by (induction cs arbitrary: acc) simp_all

lemma single_pk:
  assumes ok: "table_ok t" and one: "length (table_primary_key t) = 1"
  shows "\<exists>k. table_primary_key t = [k] \<and> k \<in> set (table_columns t) \<and> column_primary_key k \<and>
             (\<forall>c \<in> set (table_columns t). column_primary_key c \<longrightarrow> c = k)"
proof -
  from one obtain k where k: "table_primary_key t = [k]"
    by (cases "table_primary_key t") auto
  from ok k have "set (filter column_primary_key (table_columns t)) = {k}"
    by (simp add: table_ok_def)
  then show ?thesis using k by auto
qed

lemma to_dict_loop_eq:
  "to_dict_loop py obj cs d =
     (\<lambda>c. if c \<in> set cs then Some (float_of_decimal py (getattr_default obj c VNone)) else d c)"
proof (induction cs arbitrary: d)
  case Nil
  then show ?case by simp
next
  case (Cons a cs)
  show ?case
    by (cases "getattr_default obj a VNone")
       (auto simp: Cons.IH Let_def float_of_decimal_def fun_eq_iff)
qed

lemma to_dict_eq:
  assumes "h self = Some obj"
  shows "to_dict py self h =
     (Inr (\<lambda>c. if c \<in> set (map column_key (table_columns (table (cls obj))))
                then Some (float_of_decimal py (getattr_default obj c VNone)) else None), h)"
  using assms by (simp add: to_dict_def to_dict_loop_eq)

text \<open>The reading operations leave the store as it is.\<close>

lemma primary_key_heap: "snd (primary_key self h) = h"
  by (simp add: primary_key_def split: option.split list.split)

lemma getattr_heap: "snd (getattr self name h) = h"
  by (simp add: getattr_def split: option.split)

lemma resource_uri_heap: "snd (resource_uri py self h) = h"
  by (auto simp: resource_uri_def primary_key_def getattr_def split: option.split list.split)

lemma related_uri_Some:
  "related_uri py h v = Some u \<longleftrightarrow> (\<exists>r. v = VObj r \<and> resource_uri py r h = (Inr u, h))"
proof (cases v)
  case (VObj r)
  have "resource_uri py r h = (fst (resource_uri py r h), h)"
    using resource_uri_heap [of py r h] by (metis prod.collapse)
  then show ?thesis using VObj
    by (auto simp: related_uri_def split: sum.splits)
qed (simp_all add: related_uri_def)

text \<open>
  The loop of \<^verbatim>\<open>links\<close>, when it raises on none of the relationships it looks at:
  it returns the dictionary it was given, overridden by the entries of the
  relationships.
\<close>

lemma links_loop_eq:
  assumes "h self = Some obj"
    and "\<forall>k \<in> set ks. \<not> str_contains ''collection'' k \<longrightarrow> linkable py h (attrs obj k)"
  shows "links_loop py self ks d h = (Inr (d ++ link_entries py h obj ks), h)"
  using assms(2)
proof (induction ks arbitrary: d)
  case Nil
  then show ?case by (simp add: link_entries_def)
next
  case (Cons a ks)
  then have IH: "\<And>d. links_loop py self ks d h = (Inr (d ++ link_entries py h obj ks), h)"
    by simp
  show ?case
  proof (cases "str_contains ''collection'' a")
    case True
    then have "link_entries py h obj (a # ks) = link_entries py h obj ks"
      by (auto simp: link_entries_def fun_eq_iff)
    with True IH show ?thesis by simp
  next
    case False
    with Cons.prems have s: "linkable py h (attrs obj a)" by simp
    then obtain v where v: "attrs obj a = Some v"
      by (auto simp: linkable_def split: option.splits)
    show ?thesis
    proof (cases "truthy py h v")
      case falsy: False
      then have "link_entries py h obj (a # ks) = link_entries py h obj ks"
        using v by (auto simp: link_entries_def fun_eq_iff)
      with False falsy v IH assms(1) show ?thesis
        by (simp add: getattr_def)
    next
      case True
      with s v obtain u where u: "related_uri py h v = Some u"
        by (auto simp: linkable_def)
      then obtain r where r: "v = VObj r" "resource_uri py r h = (Inr u, h)"
        by (auto simp: related_uri_Some)
      have "d(a \<mapsto> u) ++ link_entries py h obj ks = d ++ link_entries py h obj (a # ks)"
        using False v u True
        by (auto simp: link_entries_def fun_eq_iff map_add_def split: option.splits)
      with False v r True IH assms(1) show ?thesis
        by (simp add: getattr_def call_resource_uri_def)
    qed
  qed
qed

text \<open>
  The loop of \<^verbatim>\<open>update\<close> over keys that the dictionary holds with values that the
  class lets be assigned: it completes, and the instance holds the dictionary's values
  under these keys.
\<close>

lemma update_loop_ok:
  assumes "h self = Some obj"
    and "\<forall>k \<in> set ks. \<exists>v. map_of attributes k = Some v \<and> \<not> refuses (cls obj) k v"
  shows "\<exists>h'. update_loop self attributes ks h = (Inr (), h') \<and>
           h' self = Some (obj\<lparr>attrs := attrs obj ++ (map_of attributes |` set ks)\<rparr>)"
  using assms
proof (induction ks arbitrary: h obj)
  case Nil
  then show ?case by simp
next
  case (Cons k ks)
  from Cons.prems(2) obtain v where v: "map_of attributes k = Some v"
    and ok: "\<not> refuses (cls obj) k v"
    by auto
  let ?obj = "obj\<lparr>attrs := (attrs obj)(k \<mapsto> v)\<rparr>"
  let ?h = "(with_attrs h (assigned (cls obj) self k v (attrs_of h)))(self \<mapsto> ?obj)"
  have step: "setattr self k v h = (Inr (), ?h)"
    using Cons.prems(1) ok by (simp add: setattr_def)
  have unfold: "update_loop self attributes (k # ks) h = update_loop self attributes ks ?h"
    using v step by simp
  have "\<exists>h'. update_loop self attributes ks ?h = (Inr (), h') \<and>
          h' self = Some (?obj\<lparr>attrs := attrs ?obj ++ (map_of attributes |` set ks)\<rparr>)"
    by (rule Cons.IH) (use Cons.prems in simp_all)
  then obtain h' where rest: "update_loop self attributes ks ?h = (Inr (), h')"
    and at: "h' self = Some (?obj\<lparr>attrs := attrs ?obj ++ (map_of attributes |` set ks)\<rparr>)"
    by blast
  have maps: "(attrs obj)(k \<mapsto> v) ++ (map_of attributes |` set ks) =
                 attrs obj ++ (map_of attributes |` set (k # ks))"
    using v by (auto simp: fun_eq_iff map_add_def restrict_map_def split: option.splits)
  have "?obj\<lparr>attrs := attrs ?obj ++ (map_of attributes |` set ks)\<rparr> =
        obj\<lparr>attrs := (attrs obj)(k \<mapsto> v) ++ (map_of attributes |` set ks)\<rparr>"
    by simp
  also have "\<dots> = obj\<lparr>attrs := attrs obj ++ (map_of attributes |` set (k # ks))\<rparr>"
    by (simp only: maps)
  finally have "h' self = Some (obj\<lparr>attrs := attrs obj ++ (map_of attributes |` set (k # ks))\<rparr>)"
    using at by (simp only:)
  with unfold rest show ?case by (simp only:) blast
qed

lemma update_loop_append:
  "update_loop self attributes (ks1 @ ks2) h =
     (case update_loop self attributes ks1 h of
        (Inl e, h1) \<Rightarrow> (Inl e, h1)
      | (Inr _, h1) \<Rightarrow> update_loop self attributes ks2 h1)"
  by (induction ks1 arbitrary: h) (auto split: option.splits prod.splits sum.splits)

lemma restrict_map_of_append:
  "map_of (xs @ ys) |` set (map fst xs) = map_of xs"
proof (rule ext)
  fix x
  show "(map_of (xs @ ys) |` set (map fst xs)) x = map_of xs x"
  proof (cases "x \<in> fst ` set xs")
    case True
    then obtain y where "map_of xs x = Some y"
      by (cases "map_of xs x") (auto simp: map_of_eq_None_iff)
    then show ?thesis using True by (simp add: restrict_map_def map_add_def)
  next
    case False
    then have "map_of xs x = None" by (simp add: map_of_eq_None_iff)
    then show ?thesis using False by (simp add: restrict_map_def)
  qed
qed


text \<open>
  Where the operations raise: \<^verbatim>\<open>primary_key\<close> on a table without primary-key columns,
  \<^verbatim>\<open>resource_uri\<close> on a class whose \<^verbatim>\<open>__url__\<close> was never set, and the loop of
  \<^verbatim>\<open>links\<close> on a relationship that holds a non-empty collection under a key without
  \<^verbatim>\<open>"collection"\<close>; an empty collection under such a key is skipped.
\<close>

lemma primary_key_no_columns:
  "h self = Some obj \<Longrightarrow> table_primary_key (table (cls obj)) = [] \<Longrightarrow>
   primary_key self h = (Inl IndexError, h)"
  by (simp add: primary_key_def)

lemma resource_uri_no_url:
  "h self = Some obj \<Longrightarrow> url (cls obj) = None \<Longrightarrow>
   resource_uri py self h = (Inl TypeError, h)"
  by (simp add: resource_uri_def)

lemma links_loop_collection_value:
  "h self = Some obj \<Longrightarrow> \<not> str_contains ''collection'' k \<Longrightarrow>
   attrs obj k = Some (VList (r # rs)) \<Longrightarrow>
   links_loop py self (k # ks) d h = (Inl AttributeError, h)"
  by (simp add: getattr_def truthy_def call_resource_uri_def)

lemma links_loop_empty_collection:
  "h self = Some obj \<Longrightarrow> \<not> str_contains ''collection'' k \<Longrightarrow>
   attrs obj k = Some (VList []) \<Longrightarrow>
   links_loop py self (k # ks) d h = links_loop py self ks d h"
  by (simp add: getattr_def truthy_def)

text \<open>
  A relationship keyed \<^verbatim>\<open>self\<close>: the loop stores the related object's URI under the
  key of the instance's own link.
\<close>

lemma links_self_key:
  "links exact_python 1 profile_store = (Inr [''self'' \<mapsto> ''/self/9''], profile_store) \<and>
   resource_uri exact_python 1 profile_store = (Inr ''/profiles/1'', profile_store)"
  by (simp add: example_defs links_def resource_uri_def primary_key_def getattr_def
      truthy_def call_resource_uri_def str_def str_int_def str_nat.simps)

section \<open>The properties\<close>

subsection \<open>\<^verbatim>\<open>required\<close> and \<^verbatim>\<open>optional\<close>\<close>

text \<open>
  Claim C8. For every mapped table, \<^verbatim>\<open>required()\<close> returns the list, in the table's
  column declaration order, of exactly those column names that are non-nullable and not
  part of the primary key, and \<^verbatim>\<open>optional()\<close> returns the list, in declaration order,
  of exactly the nullable column names; neither operation has side effects: each
  returns the store it was given.
\<close>

theorem required_optional_lists:
  "required c h =
     (map column_name
        (filter (\<lambda>col. \<not> column_nullable col \<and> \<not> column_primary_key col)
           (table_columns (table c))), h) \<and>
   optional c h = (map column_name (filter column_nullable (table_columns (table c))), h)"
  by (simp add: required_def optional_def required_loop_eq optional_loop_eq)

theorem required_optional_lists_witness:
  "required Widget store = ([''name''], store) \<and>
   optional Widget store = ([''price'', ''owner_id''], store)"
  using required_optional_lists [of Widget store] by (simp add: example_defs)

text \<open>
  Claim C1, as stated: for every mapped table, the names returned by \<^verbatim>\<open>required()\<close>,
  those returned by \<^verbatim>\<open>optional()\<close> and the name returned by \<^verbatim>\<open>primary_key()\<close>
  together are all the column names of the table. It fails on a table with a composite
  primary key: in \<^verbatim>\<open>order_items\<close> both \<^verbatim>\<open>order_id\<close> and \<^verbatim>\<open>item_id\<close> are non-nullable
  primary-key columns, \<^verbatim>\<open>primary_key()\<close> reports \<^verbatim>\<open>order_id\<close> only, and \<^verbatim>\<open>item_id\<close>
  is in none of the three.
\<close>

theorem required_optional_partition_counterexample:
  "table_ok (table OrderItem) \<and>
   order_store 1 = Some order_item \<and> cls order_item = OrderItem \<and>
   primary_key 1 order_store = (Inr ''order_id'', order_store) \<and>
   set (fst (required OrderItem order_store)) \<union> set (fst (optional OrderItem order_store)) \<union>
     {''order_id''} = {''order_id'', ''quantity''} \<and>
   set (map column_name (table_columns (table OrderItem))) =
     {''order_id'', ''item_id'', ''quantity''} \<and>
   {''order_id'', ''quantity''} \<noteq> {''order_id'', ''item_id'', ''quantity''}"
proof -
  have ok: "table_ok (table OrderItem)"
    by (simp add: example_defs table_ok_def)
  have obj: "order_store 1 = Some order_item \<and> cls order_item = OrderItem"
    by (simp add: order_store_def order_item_def)
  have pk: "primary_key 1 order_store = (Inr ''order_id'', order_store)"
    by (simp add: example_defs primary_key_def)
  have three: "set (fst (required OrderItem order_store)) \<union>
      set (fst (optional OrderItem order_store)) \<union> {''order_id''} = {''order_id'', ''quantity''}"
    by (simp add: example_defs required_def optional_def insert_commute)
  have names: "set (map column_name (table_columns (table OrderItem))) =
      {''order_id'', ''item_id'', ''quantity''}"
    by (simp add: example_defs)
  have ne: "{''order_id'', ''quantity''} \<noteq> {''order_id'', ''item_id'', ''quantity''}"
  proof
    assume eq: "{''order_id'', ''quantity''} = {''order_id'', ''item_id'', ''quantity''}"
    have "''item_id'' \<in> {''order_id'', ''item_id'', ''quantity''}" by simp
    with eq have "''item_id'' \<in> {''order_id'', ''quantity''}" by (simp only:)
    then show False by simp
  qed
  from ok obj pk three names ne show ?thesis by (intro conjI) simp_all
qed

text \<open>
  Claim C1, amended: for every mapped table whose primary key is a single column, the
  set of column names returned by \<^verbatim>\<open>required()\<close>, united with the set returned by
  \<^verbatim>\<open>optional()\<close>, united with the singleton of the column name returned by
  \<^verbatim>\<open>primary_key()\<close>, equals the full set of the table's column names, and the sets
  returned by \<^verbatim>\<open>required()\<close> and \<^verbatim>\<open>optional()\<close> are disjoint.
\<close>

theorem required_optional_partition:
  assumes "h self = Some obj"
    and "table_ok (table (cls obj))"
    and "length (table_primary_key (table (cls obj))) = 1"
  shows "\<exists>pk. primary_key self h = (Inr pk, h) \<and>
           set (fst (required (cls obj) h)) \<union> set (fst (optional (cls obj) h)) \<union> {pk} =
             set (map column_name (table_columns (table (cls obj)))) \<and>
           set (fst (required (cls obj) h)) \<inter> set (fst (optional (cls obj) h)) = {}"
proof -
  let ?t = "table (cls obj)"
  from single_pk [OF assms(2,3)] obtain k where
    k: "table_primary_key ?t = [k]" "k \<in> set (table_columns ?t)" "column_primary_key k"
    and only: "\<forall>c \<in> set (table_columns ?t). column_primary_key c \<longrightarrow> c = k"
    by blast
  have pk: "primary_key self h = (Inr (column_name k), h)"
    using assms(1) k(1) by (simp add: primary_key_def)
  have inj: "inj_on column_name (set (table_columns ?t))"
    using assms(2) by (simp add: table_ok_def distinct_map)
  have union: "set (fst (required (cls obj) h)) \<union> set (fst (optional (cls obj) h)) \<union>
      {column_name k} = set (map column_name (table_columns ?t))"
    using k(2) only by (auto simp: required_def optional_def required_loop_eq optional_loop_eq)
  have disj: "set (fst (required (cls obj) h)) \<inter> set (fst (optional (cls obj) h)) = {}"
    using inj
    by (auto simp: required_def optional_def required_loop_eq optional_loop_eq dest: inj_onD)
  show ?thesis using pk union disj by simp
qed

theorem required_optional_partition_witness:
  "store 1 = Some widget42 \<and> table_ok (table (cls widget42)) \<and>
   length (table_primary_key (table (cls widget42))) = 1 \<and>
   (\<exists>pk. primary_key 1 store = (Inr pk, store) \<and>
      set (fst (required (cls widget42) store)) \<union> set (fst (optional (cls widget42) store)) \<union>
        {pk} = set (map column_name (table_columns (table (cls widget42)))) \<and>
      set (fst (required (cls widget42) store)) \<inter> set (fst (optional (cls widget42) store)) =
        {})"
proof -
  have a: "store 1 = Some widget42"
    by (simp add: store_def)
  have b: "table_ok (table (cls widget42))"
    by (simp add: example_defs table_ok_def)
  have c: "length (table_primary_key (table (cls widget42))) = 1"
    by (simp add: example_defs)
  show ?thesis
    using a b c
      required_optional_partition [where h = store and self = 1 and obj = widget42, OF a b c]
    by (intro conjI)
qed

subsection \<open>\<^verbatim>\<open>primary_key\<close>\<close>

text \<open>
  Claim C7. For every instance whose table has at least one primary-key column,
  \<^verbatim>\<open>primary_key()\<close> returns the name of the first declared primary-key column; when the
  table has a composite primary key (\<open>ks\<close> is not empty), only the first declared
  column's name is reported. Where the constraint lists the flagged columns in the
  table's own order, that column is the first column of the table flagged as primary
  key.
\<close>

theorem primary_key_first:
  assumes "h self = Some obj"
    and "table_primary_key (table (cls obj)) = k # ks"
  shows "primary_key self h = (Inr (column_name k), h) \<and>
         (table_primary_key (table (cls obj)) =
            filter column_primary_key (table_columns (table (cls obj)))
            \<longrightarrow> (\<exists>pre post. table_columns (table (cls obj)) = pre @ k # post \<and>
                   (\<forall>c \<in> set pre. \<not> column_primary_key c) \<and> column_primary_key k))"
proof (intro conjI impI)
  show "primary_key self h = (Inr (column_name k), h)"
    using assms by (simp add: primary_key_def)
next
  assume "table_primary_key (table (cls obj)) =
            filter column_primary_key (table_columns (table (cls obj)))"
  with assms(2) have "filter column_primary_key (table_columns (table (cls obj))) = k # ks"
    by simp
  then show "\<exists>pre post. table_columns (table (cls obj)) = pre @ k # post \<and>
                   (\<forall>c \<in> set pre. \<not> column_primary_key c) \<and> column_primary_key k"
    unfolding filter_eq_Cons_iff by blast
qed

theorem primary_key_first_witness:
  "order_store 1 = Some order_item \<and>
   table_primary_key (table (cls order_item)) = order_id_column # [item_id_column] \<and>
   table_primary_key (table (cls order_item)) =
     filter column_primary_key (table_columns (table (cls order_item))) \<and>
   primary_key 1 order_store = (Inr ''order_id'', order_store) \<and>
   (\<exists>pre post. table_columns (table (cls order_item)) = pre @ order_id_column # post \<and>
      (\<forall>c \<in> set pre. \<not> column_primary_key c) \<and> column_primary_key order_id_column)"
proof -
  have a: "order_store 1 = Some order_item"
    by (simp add: order_store_def)
  have b: "table_primary_key (table (cls order_item)) = order_id_column # [item_id_column]"
    by (simp add: example_defs)
  have c: "table_primary_key (table (cls order_item)) =
     filter column_primary_key (table_columns (table (cls order_item)))"
    by (simp add: example_defs)
  have d: "column_name order_id_column = ''order_id''"
    by (simp add: order_id_column_def)
  show ?thesis
    using a b c d
      primary_key_first [where h = order_store and self = 1 and obj = order_item
        and k = order_id_column and ks = "[item_id_column]", OF a b]
    by simp
qed

subsection \<open>\<^verbatim>\<open>to_dict\<close>\<close>

text \<open>
  Claim C6, as stated: for every instance, \<^verbatim>\<open>to_dict()\<close> returns a mapping whose keys
  are exactly the table's column names. It fails on a table whose columns were declared
  with keys of their own: the loop walks \<^verbatim>\<open>columns.keys()\<close>, so the dictionary of a
  gadget has the keys \<^verbatim>\<open>ident\<close>, \<^verbatim>\<open>title\<close> and \<^verbatim>\<open>cost\<close>, while the columns are named
  \<^verbatim>\<open>id\<close>, \<^verbatim>\<open>name\<close> and \<^verbatim>\<open>price\<close>.
\<close>

theorem to_dict_columns_counterexample:
  "gadget_store 1 = Some gadget1 \<and>
   map column_name (table_columns (table (cls gadget1))) = [''id'', ''name'', ''price''] \<and>
   to_dict exact_python 1 gadget_store =
     (Inr [''ident'' \<mapsto> VInt 1, ''title'' \<mapsto> VStr ''cog'', ''cost'' \<mapsto> VFloat (157 / 50)],
      gadget_store) \<and>
   [''ident'' \<mapsto> VInt 1, ''title'' \<mapsto> VStr ''cog'', ''cost'' \<mapsto> VFloat (157 / 50 :: rat)] ''id'' =
     None \<and>
   ''id'' \<in> set [''id'', ''name'', ''price'']"
  by (simp add: example_defs to_dict_def getattr_default_def)

text \<open>
  Claim C6, amended: for every instance, \<^verbatim>\<open>to_dict()\<close> returns a mapping whose keys are
  exactly the keys of the table's columns (a column's key is its name unless the column
  was declared with a key of its own), each bound to the instance's current value for
  that key, except that a value that is a decimal is converted to a floating-point
  number (by the interpreter's \<^verbatim>\<open>float\<close>) before inclusion; in particular a column
  holding \<^verbatim>\<open>Decimal("3.14")\<close> appears as the float of \<^verbatim>\<open>Decimal("3.14")\<close>.
\<close>

theorem to_dict_columns:
  assumes "h self = Some obj"
  shows "\<exists>m. to_dict py self h = (Inr m, h) \<and>
           dom m = set (map column_key (table_columns (table (cls obj)))) \<and>
           (\<forall>c \<in> dom m. \<forall>v. attrs obj c = Some v \<longrightarrow>
              m c = Some (case v of VDecimal d \<Rightarrow> VFloat (py_float py d) | _ \<Rightarrow> v)) \<and>
           (\<forall>c \<in> dom m. attrs obj c = Some (VDecimal (Decimal 314 (- 2))) \<longrightarrow>
              m c = Some (VFloat (py_float py (Decimal 314 (- 2)))))"
proof -
  let ?keys = "map column_key (table_columns (table (cls obj)))"
  let ?m = "\<lambda>c. if c \<in> set ?keys
                then Some (float_of_decimal py (getattr_default obj c VNone)) else None"
  have run: "to_dict py self h = (Inr ?m, h)"
    using assms by (rule to_dict_eq [where h = h and self = self and obj = obj])
  have d: "dom ?m = set ?keys"
    by (auto simp: dom_def)
  have v: "\<forall>c \<in> dom ?m. \<forall>v. attrs obj c = Some v \<longrightarrow>
              ?m c = Some (case v of VDecimal d \<Rightarrow> VFloat (py_float py d) | _ \<Rightarrow> v)"
    by (auto simp: dom_def float_of_decimal_def getattr_default_def)
  have e: "\<forall>c \<in> dom ?m. attrs obj c = Some (VDecimal (Decimal 314 (- 2))) \<longrightarrow>
              ?m c = Some (VFloat (py_float py (Decimal 314 (- 2))))"
    by (auto simp: dom_def float_of_decimal_def getattr_default_def)
  from run d v e show ?thesis by blast
qed

theorem to_dict_columns_witness:
  "gadget_store 1 = Some gadget1 \<and>
   to_dict exact_python 1 gadget_store =
     (Inr [''ident'' \<mapsto> VInt 1, ''title'' \<mapsto> VStr ''cog'', ''cost'' \<mapsto> VFloat (157 / 50)],
      gadget_store) \<and>
   attrs gadget1 ''cost'' = Some (VDecimal (Decimal 314 (- 2))) \<and>
   (\<exists>m. to_dict exact_python 1 gadget_store = (Inr m, gadget_store) \<and>
      dom m = set (map column_key (table_columns (table (cls gadget1)))) \<and>
      (\<forall>c \<in> dom m. \<forall>v. attrs gadget1 c = Some v \<longrightarrow>
         m c = Some (case v of VDecimal d \<Rightarrow> VFloat (py_float exact_python d) | _ \<Rightarrow> v)) \<and>
      (\<forall>c \<in> dom m. attrs gadget1 c = Some (VDecimal (Decimal 314 (- 2))) \<longrightarrow>
         m c = Some (VFloat (py_float exact_python (Decimal 314 (- 2))))))"
proof -
  have a: "gadget_store 1 = Some gadget1"
    by (simp add: gadget_store_def)
  have b: "to_dict exact_python 1 gadget_store =
     (Inr [''ident'' \<mapsto> VInt 1, ''title'' \<mapsto> VStr ''cog'', ''cost'' \<mapsto> VFloat (157 / 50)],
      gadget_store)"
    by (simp add: example_defs to_dict_def getattr_default_def)
  have c: "attrs gadget1 ''cost'' = Some (VDecimal (Decimal 314 (- 2)))"
    by (simp add: gadget1_def)
  show ?thesis
    using a b c
      to_dict_columns [where h = gadget_store and self = 1 and obj = gadget1
        and py = exact_python, OF a]
    by (intro conjI)
qed

text \<open>
  Claim C9. \<^verbatim>\<open>to_dict()\<close> is idempotent: for every instance, calling it twice without
  any mutation of the instance in between (the second call runs in the store that the
  first call leaves) yields two identical mappings.
\<close>

theorem to_dict_idempotent:
  assumes "h self = Some obj"
  shows "\<exists>m. to_dict py self h = (Inr m, h) \<and>
             to_dict py self (snd (to_dict py self h)) = (Inr m, h)"
  using assms by (simp add: to_dict_def)

theorem to_dict_idempotent_witness:
  "store 1 = Some widget42 \<and>
   (\<exists>m. to_dict exact_python 1 store = (Inr m, store) \<and>
        to_dict exact_python 1 (snd (to_dict exact_python 1 store)) = (Inr m, store))"
proof -
  have a: "store 1 = Some widget42"
    by (simp add: store_def)
  show ?thesis
    using a
      to_dict_idempotent [where h = store and self = 1 and obj = widget42
        and py = exact_python, OF a]
    by (intro conjI)
qed

text \<open>
  Claim C10, as stated: for every column name that is not present as an instance
  attribute, the returned mapping binds that column name to \<^verbatim>\<open>None\<close>. It fails on a
  column declared with a key of its own: a gadget has no attribute \<^verbatim>\<open>id\<close>, the name
  of its first column, and its dictionary has no key \<^verbatim>\<open>id\<close> at all.
\<close>

theorem to_dict_missing_attribute_counterexample:
  "gadget_store 1 = Some gadget1 \<and>
   ''id'' \<in> set (map column_name (table_columns (table (cls gadget1)))) \<and>
   attrs gadget1 ''id'' = None \<and>
   to_dict exact_python 1 gadget_store =
     (Inr [''ident'' \<mapsto> VInt 1, ''title'' \<mapsto> VStr ''cog'', ''cost'' \<mapsto> VFloat (157 / 50)],
      gadget_store) \<and>
   [''ident'' \<mapsto> VInt 1, ''title'' \<mapsto> VStr ''cog'', ''cost'' \<mapsto> VFloat (157 / 50 :: rat)] ''id'' \<noteq>
     Some VNone"
  by (simp add: example_defs to_dict_def getattr_default_def)

text \<open>
  Claim C10, amended: \<^verbatim>\<open>to_dict()\<close> never fails because a table column has no
  corresponding attribute on the instance: for every column key (the column's name
  unless the column was declared with a key of its own) that is not present as an
  instance attribute, the call returns and the returned mapping binds that key to
  \<^verbatim>\<open>None\<close>.
\<close>

theorem to_dict_missing_attribute:
  assumes "h self = Some obj"
    and "c \<in> set (map column_key (table_columns (table (cls obj))))"
    and "attrs obj c = None"
  shows "\<exists>m. to_dict py self h = (Inr m, h) \<and> m c = Some VNone"
  using assms to_dict_eq [where h = h and self = self and obj = obj and py = py]
  by (simp add: float_of_decimal_def getattr_default_def)

theorem to_dict_missing_attribute_witness:
  "store 1 = Some widget42 \<and>
   ''owner_id'' \<in> set (map column_key (table_columns (table (cls widget42)))) \<and>
   attrs widget42 ''owner_id'' = None \<and>
   (\<exists>m. to_dict exact_python 1 store = (Inr m, store) \<and> m ''owner_id'' = Some VNone)"
proof -
  have a: "store 1 = Some widget42"
    by (simp add: store_def)
  have b: "''owner_id'' \<in> set (map column_key (table_columns (table (cls widget42))))"
    by (simp add: example_defs)
  have c: "attrs widget42 ''owner_id'' = None"
    by (simp add: widget42_def)
  show ?thesis
    using a b c
      to_dict_missing_attribute [where h = store and self = 1 and obj = widget42
        and c = "''owner_id''" and py = exact_python, OF a b c]
    by (intro conjI)
qed

subsection \<open>\<^verbatim>\<open>resource_uri\<close>\<close>



subsection \<open>\<^verbatim>\<open>links\<close>\<close>

text \<open>
  Claim C2, as stated: for every instance, \<^verbatim>\<open>links()\<close> returns a mapping with the key
  \<^verbatim>\<open>"self"\<close> plus one entry per relationship whose key does not contain \<^verbatim>\<open>"collection"\<close>
  and whose current related value is non-null. It fails where a related value is
  non-null and false: the loop adds an entry under the guard \<^verbatim>\<open>if instance:\<close>, which
  tests the truth value. Shopper 1 holds the empty basket 2, an object of a class that
  defines \<^verbatim>\<open>__len__\<close>; the basket has a URI, and \<^verbatim>\<open>links()\<close> has no entry for it.
\<close>

theorem links_entries_counterexample:
  "shop_store 1 = Some shopper1 \<and>
   relationships (cls shopper1) = [''basket''] \<and>
   \<not> str_contains ''collection'' ''basket'' \<and>
   attrs shopper1 ''basket'' = Some (VObj 2) \<and>
   resource_uri exact_python 2 shop_store = (Inr ''/baskets/5'', shop_store) \<and>
   links exact_python 1 shop_store = (Inr [''self'' \<mapsto> ''/shoppers/1''], shop_store) \<and>
   [''self'' \<mapsto> ''/shoppers/1''] ''basket'' = None"
  by (simp add: example_defs links_def resource_uri_def primary_key_def getattr_def
      truthy_def call_resource_uri_def str_def str_int_def str_nat.simps)

text \<open>
  Claim C2, amended: for every instance on which \<^verbatim>\<open>resource_uri()\<close> returns, none of
  whose relationships is keyed \<^verbatim>\<open>"self"\<close>, and each of whose relationships with a key
  that does not contain \<^verbatim>\<open>"collection"\<close> holds a value that is false or is a resource
  object on which \<^verbatim>\<open>resource_uri()\<close> returns, \<^verbatim>\<open>links()\<close> returns a mapping that
  contains the key \<^verbatim>\<open>"self"\<close> bound to \<^verbatim>\<open>resource_uri()\<close> of that instance, plus exactly
  one entry per relationship whose key does not contain the substring \<^verbatim>\<open>"collection"\<close>
  and whose current related value is true (it is not null, and its class does not make
  it false), each such entry binding the relationship name to the related object's
  \<^verbatim>\<open>resource_uri()\<close>; relationships whose key contains \<^verbatim>\<open>"collection"\<close>, and
  relationships whose current value is null or otherwise false, are omitted.
\<close>

theorem links_entries:
  assumes "h self = Some obj"
    and "resource_uri py self h = (Inr u, h)"
    and "''self'' \<notin> set (relationships (cls obj))"
    and "\<forall>k \<in> set (relationships (cls obj)).
           \<not> str_contains ''collection'' k \<longrightarrow> linkable py h (attrs obj k)"
  shows "\<exists>m. links py self h = (Inr m, h) \<and>
           m ''self'' = Some u \<and>
           dom m = insert ''self''
             {k \<in> set (relationships (cls obj)).
                \<not> str_contains ''collection'' k \<and> truthy_attr py h (attrs obj k)} \<and>
           (\<forall>k \<in> set (relationships (cls obj)). \<forall>r.
              \<not> str_contains ''collection'' k \<longrightarrow> attrs obj k = Some (VObj r) \<longrightarrow>
              truthy py h (VObj r) \<longrightarrow>
              (\<exists>u'. resource_uri py r h = (Inr u', h) \<and> m k = Some u'))"
proof -
  let ?rels = "relationships (cls obj)"
  let ?m = "[''self'' \<mapsto> u] ++ link_entries py h obj ?rels"
  have run: "links py self h = (Inr ?m, h)"
    using assms(1,2) links_loop_eq [where h = h and self = self and obj = obj
        and ks = ?rels and py = py and d = "[''self'' \<mapsto> u]", OF assms(1) assms(4)]
    by (simp add: links_def)
  have none_self: "link_entries py h obj ?rels ''self'' = None"
    using assms(3) by (simp add: link_entries_def)
  then have self: "?m ''self'' = Some u"
    by (simp add: map_add_def)
  have entries: "\<And>k. k \<in> set ?rels \<Longrightarrow> \<not> str_contains ''collection'' k \<Longrightarrow>
      truthy_attr py h (attrs obj k) \<Longrightarrow> \<exists>r u'. attrs obj k = Some (VObj r) \<and>
        resource_uri py r h = (Inr u', h) \<and> link_entries py h obj ?rels k = Some u'"
  proof -
    fix k
    assume k: "k \<in> set ?rels" "\<not> str_contains ''collection'' k"
      "truthy_attr py h (attrs obj k)"
    then obtain v where v: "attrs obj k = Some v" "truthy py h v"
      by (auto simp: truthy_attr_def split: option.splits)
    from k(1,2) assms(4) have "linkable py h (attrs obj k)" by blast
    with v obtain u' where "related_uri py h v = Some u'"
      by (auto simp: linkable_def)
    then show "\<exists>r u'. attrs obj k = Some (VObj r) \<and>
        resource_uri py r h = (Inr u', h) \<and> link_entries py h obj ?rels k = Some u'"
      using k(1,2) v by (auto simp: related_uri_Some link_entries_def)
  qed
  have dom: "dom ?m = insert ''self''
             {k \<in> set ?rels. \<not> str_contains ''collection'' k \<and> truthy_attr py h (attrs obj k)}"
  proof (intro set_eqI iffI)
    fix k assume "k \<in> dom ?m"
    then have "k = ''self'' \<or> link_entries py h obj ?rels k \<noteq> None"
      by (auto simp: map_add_def split: option.splits if_splits)
    moreover have "link_entries py h obj ?rels k \<noteq> None \<Longrightarrow>
        k \<in> set ?rels \<and> \<not> str_contains ''collection'' k \<and> truthy_attr py h (attrs obj k)"
      by (auto simp: link_entries_def truthy_attr_def split: if_splits option.splits)
    ultimately show "k \<in> insert ''self''
             {k \<in> set ?rels. \<not> str_contains ''collection'' k \<and> truthy_attr py h (attrs obj k)}"
      by blast
  next
    fix k assume "k \<in> insert ''self''
             {k \<in> set ?rels. \<not> str_contains ''collection'' k \<and> truthy_attr py h (attrs obj k)}"
    then show "k \<in> dom ?m"
    proof
      assume k: "k = ''self''"
      show ?thesis unfolding k using self by (rule domI)
    next
      assume "k \<in> {k \<in> set ?rels.
                     \<not> str_contains ''collection'' k \<and> truthy_attr py h (attrs obj k)}"
      then obtain u' where "link_entries py h obj ?rels k = Some u'"
        using entries [of k] by blast
      then have "?m k = Some u'" by (simp add: map_add_def)
      then show ?thesis by (rule domI)
    qed
  qed
  have each: "\<forall>k \<in> set ?rels. \<forall>r.
              \<not> str_contains ''collection'' k \<longrightarrow> attrs obj k = Some (VObj r) \<longrightarrow>
              truthy py h (VObj r) \<longrightarrow>
              (\<exists>u'. resource_uri py r h = (Inr u', h) \<and> ?m k = Some u')"
  proof (intro ballI allI impI)
    fix k r
    assume k: "k \<in> set ?rels" "\<not> str_contains ''collection'' k" "attrs obj k = Some (VObj r)"
      "truthy py h (VObj r)"
    then have "truthy_attr py h (attrs obj k)" by (simp add: truthy_attr_def)
    from entries [OF k(1,2) this] k(3)
    show "\<exists>u'. resource_uri py r h = (Inr u', h) \<and> ?m k = Some u'"
      by (auto simp: map_add_def)
  qed
  show ?thesis
  proof (intro exI conjI)
    show "links py self h = (Inr ?m, h)" by (rule run)
    show "?m ''self'' = Some u" by (rule self)
    show "dom ?m = insert ''self''
             {k \<in> set ?rels. \<not> str_contains ''collection'' k \<and> truthy_attr py h (attrs obj k)}"
      by (rule dom)
    show "\<forall>k \<in> set ?rels. \<forall>r.
              \<not> str_contains ''collection'' k \<longrightarrow> attrs obj k = Some (VObj r) \<longrightarrow>
              truthy py h (VObj r) \<longrightarrow>
              (\<exists>u'. resource_uri py r h = (Inr u', h) \<and> ?m k = Some u')"
      by (rule each)
  qed
qed

theorem links_entries_witness:
  "store 1 = Some widget42 \<and>
   resource_uri exact_python 1 store = (Inr ''/widgets/42'', store) \<and>
   relationships (cls widget42) = [''owner'', ''orders_collection''] \<and>
   ''self'' \<notin> set (relationships (cls widget42)) \<and>
   linkable exact_python store (attrs widget42 ''owner'') \<and>
   truthy_attr exact_python store (attrs widget42 ''owner'') \<and>
   str_contains ''collection'' ''orders_collection'' \<and>
   links exact_python 1 store =
     (Inr [''self'' \<mapsto> ''/widgets/42'', ''owner'' \<mapsto> ''/owners/7''], store) \<and>
   (\<exists>m. links exact_python 1 store = (Inr m, store) \<and>
      m ''self'' = Some ''/widgets/42'' \<and>
      dom m = insert ''self''
        {k \<in> set (relationships (cls widget42)).
           \<not> str_contains ''collection'' k \<and>
           truthy_attr exact_python store (attrs widget42 k)} \<and>
      (\<forall>k \<in> set (relationships (cls widget42)). \<forall>r.
         \<not> str_contains ''collection'' k \<longrightarrow> attrs widget42 k = Some (VObj r) \<longrightarrow>
         truthy exact_python store (VObj r) \<longrightarrow>
         (\<exists>u'. resource_uri exact_python r store = (Inr u', store) \<and> m k = Some u')))"
proof -
  have a: "store 1 = Some widget42"
    by (simp add: store_def)
  have b: "resource_uri exact_python 1 store = (Inr ''/widgets/42'', store)"
    by (simp add: example_defs resource_uri_def primary_key_def getattr_def
        str_def str_int_def str_nat.simps)
  have rels: "relationships (cls widget42) = [''owner'', ''orders_collection'']"
    by (simp add: widget42_def Widget_def)
  have c: "''self'' \<notin> set (relationships (cls widget42))"
    by (simp add: rels)
  have owner: "linkable exact_python store (attrs widget42 ''owner'')"
    by (simp add: example_defs linkable_def truthy_def related_uri_def resource_uri_def
        primary_key_def getattr_def str_def str_int_def str_nat.simps)
  have true: "truthy_attr exact_python store (attrs widget42 ''owner'')"
    by (simp add: example_defs truthy_attr_def truthy_def)
  have coll: "str_contains ''collection'' ''orders_collection''"
    by simp
  have d: "\<forall>k \<in> set (relationships (cls widget42)).
           \<not> str_contains ''collection'' k \<longrightarrow> linkable exact_python store (attrs widget42 k)"
    using owner by (simp add: rels)
  have run: "links exact_python 1 store =
     (Inr [''self'' \<mapsto> ''/widgets/42'', ''owner'' \<mapsto> ''/owners/7''], store)"
    by (simp add: example_defs links_def resource_uri_def primary_key_def getattr_def
        truthy_def call_resource_uri_def str_def str_int_def str_nat.simps)
  show ?thesis
    using a b rels c owner true coll run
      links_entries [where h = store and self = 1 and obj = widget42 and py = exact_python
        and u = "''/widgets/42''", OF a b c d]
    by (intro conjI)
qed

subsection \<open>\<^verbatim>\<open>update\<close>\<close>




text \<open>
  Claim C4. \<^verbatim>\<open>update()\<close> is not atomic: if assigning one of the given attribute names
  raises an attribute-assignment error (the class refuses the item \<open>(name, v)\<close>, after
  items \<open>before\<close> that it accepts, in a dictionary whose keys are distinct), the call
  fails at that point in the iteration and every attribute processed before the failing
  one remains mutated on the instance; no rollback of the partial update is performed,
  and the failing attribute and those after it are not assigned.
\<close>

theorem update_not_atomic:
  assumes "h self = Some obj"
    and "\<forall>k w. map_of before k = Some w \<longrightarrow> \<not> refuses (cls obj) k w"
    and "name \<notin> set (map fst before)"
    and "refuses (cls obj) name v"
  shows "\<exists>h'. update self (before @ (name, v) # after) h = (Inl AttributeError, h') \<and>
           h' self = Some (obj\<lparr>attrs := attrs obj ++ map_of before\<rparr>)"
proof -
  let ?A = "before @ (name, v) # after"
  let ?obj = "obj\<lparr>attrs := attrs obj ++ map_of before\<rparr>"
  have "\<forall>k \<in> set (map fst before). \<exists>w. map_of ?A k = Some w \<and> \<not> refuses (cls obj) k w"
  proof
    fix k assume "k \<in> set (map fst before)"
    then obtain w where w: "map_of before k = Some w"
      by (cases "map_of before k") (auto simp: map_of_eq_None_iff)
    then have "map_of ?A k = Some w" by (simp add: map_add_def)
    with w assms(2) show "\<exists>w. map_of ?A k = Some w \<and> \<not> refuses (cls obj) k w"
      by blast
  qed
  with assms(1) have "\<exists>h'. update_loop self ?A (map fst before) h = (Inr (), h') \<and>
      h' self = Some (obj\<lparr>attrs := attrs obj ++ (map_of ?A |` set (map fst before))\<rparr>)"
    by (rule update_loop_ok)
  then obtain h' where first: "update_loop self ?A (map fst before) h = (Inr (), h')"
    and "h' self = Some (obj\<lparr>attrs := attrs obj ++ (map_of ?A |` set (map fst before))\<rparr>)"
    by blast
  then have at: "h' self = Some ?obj"
    by (simp only: restrict_map_of_append)
  have "map_of before name = None"
    using assms(3) by (simp add: map_of_eq_None_iff)
  then have w: "map_of ?A name = Some v"
    by (simp add: map_add_def)
  have fail: "update_loop self ?A (name # map fst after) h' = (Inl AttributeError, h')"
    using w at assms(4) by (simp add: setattr_def)
  have "update_loop self ?A (map fst ?A) h = (Inl AttributeError, h')"
    using first fail update_loop_append [of self ?A "map fst before" "name # map fst after" h]
    by simp
  then have "update self ?A h = (Inl AttributeError, h')"
    by (simp add: update_def)
  with at show ?thesis by blast
qed

theorem update_not_atomic_witness:
  "store 1 = Some widget42 \<and>
   \<not> refuses (cls widget42) ''name'' (VStr ''foo'') \<and>
   ''owner'' \<notin> set (map fst [(''name'', VStr ''foo'' :: rat val)]) \<and>
   refuses (cls widget42) ''owner'' (VInt 5) \<and>
   (\<exists>h'. update 1 ([(''name'', VStr ''foo'')] @ (''owner'', VInt 5) # [(''price'', VNone)]) store =
           (Inl AttributeError, h') \<and>
         h' 1 = Some (widget42\<lparr>attrs := attrs widget42 ++ map_of [(''name'', VStr ''foo'')]\<rparr>)) \<and>
   (attrs widget42 ++ map_of [(''name'', VStr ''foo'')]) ''name'' = Some (VStr ''foo'') \<and>
   (attrs widget42 ++ map_of [(''name'', VStr ''foo'')]) ''owner'' = Some (VObj 2) \<and>
   (attrs widget42 ++ map_of [(''name'', VStr ''foo'')]) ''price'' =
     Some (VDecimal (Decimal 314 (- 2)))"
proof -
  have a: "store 1 = Some widget42"
    by (simp add: store_def)
  have n: "\<not> refuses (cls widget42) ''name'' (VStr ''foo'')"
    and l: "refuses (cls widget42) ''owner'' (VInt 5)"
    by (simp_all add: widget42_def Widget_def)
  have k: "''owner'' \<notin> set (map fst [(''name'', VStr ''foo'' :: rat val)])"
    by simp
  have b: "\<forall>k w. map_of [(''name'', VStr ''foo'' :: rat val)] k = Some w
             \<longrightarrow> \<not> refuses (cls widget42) k w"
    using n by (auto split: if_splits)
  have v: "(attrs widget42 ++ map_of [(''name'', VStr ''foo'')]) ''name'' = Some (VStr ''foo'')"
    "(attrs widget42 ++ map_of [(''name'', VStr ''foo'')]) ''owner'' = Some (VObj 2)"
    "(attrs widget42 ++ map_of [(''name'', VStr ''foo'')]) ''price'' =
     Some (VDecimal (Decimal 314 (- 2)))"
    by (simp_all add: widget42_def)
  show ?thesis
    using a n k l v
      update_not_atomic [where h = store and self = 1 and obj = widget42
        and before = "[(''name'', VStr ''foo'')]" and name = "''owner''" and v = "VInt 5"
        and after = "[(''price'', VNone)]", OF a b k l]
    by (intro conjI)
qed

text \<open>
  What an accepted assignment does to the other objects: giving widget 42 the owner 3
  takes it out of the collection of owner 2 and puts it into that of owner 3.
\<close>

lemma update_owner_two_way:
  "map_option (\<lambda>other. attrs other ''widget_collection'')
     (snd (update 1 [(''owner'', VObj 3)] store) 2) = Some (Some (VList [])) \<and>
   map_option (\<lambda>other. attrs other ''widget_collection'')
     (snd (update 1 [(''owner'', VObj 3)] store) 3) = Some (Some (VList [1])) \<and>
   map_option (\<lambda>this. attrs this ''owner'')
     (snd (update 1 [(''owner'', VObj 3)] store) 1) = Some (Some (VObj 3))"
  by (simp add: example_defs update_def setattr_def)

end
